theory Spec2Isabelle
  imports Complex_Main
begin

section \<open>Configuration (config/config.go)\<close>

text \<open>
  \<^verbatim>\<open>time.Duration\<close> is a count of nanoseconds; the configuration only carries such
  values from the loader to the scaler, so they are plain integers here.
\<close>

type_synonym Duration = int

definition Nanosecond :: Duration where "Nanosecond = 1"
definition Second :: Duration where "Second = 1000000000 * Nanosecond"
definition Minute :: Duration where "Minute = 60 * Second"

text \<open>
  The anonymous structs nested in \<^verbatim>\<open>Config\<close>, one record each, fields in the order of
  the source. \<^verbatim>\<open>Pool.Min\<close> and \<^verbatim>\<open>Pool.Max\<close> are suffixed: the plain names are the
  lattice operations of HOL.
\<close>

record Slack =
  Webhook :: string

record Logs =
  Color :: bool
  Debug :: bool
  Pretty :: bool

record Pool =
  Min_pool :: int
  Max_pool :: int
  MinAge :: Duration

record Server =
  Host :: string
  Proto :: string
  Token :: string

record Agent =
  Host :: string
  Token :: string
  Image :: string
  Concurrency :: int

record HTTP =
  Host :: string
  Port :: string

record TLS =
  Autocert :: bool
  Cert :: string
  Key :: string

record Prometheus =
  Token :: string

record Database =
  Path :: string

record DigitalOcean =
  Token :: string
  Image :: string
  Region :: string
  SSHKey :: string
  Size :: string
  IPv6 :: bool
  Tags :: "string list"

record Google =
  Zone :: string
  MachineType :: string
  MachineImage :: string
  DiskType :: string
  Address :: string
  Network :: string
  Subnetwork :: string
  Preemptible :: bool
  Scopes :: string
  DiskSize :: int
  Project :: string
  Tags :: "string list"

record Config =
  Interval :: Duration
  Slack :: Slack
  Logs :: Logs
  Pool :: Pool
  Server :: Server
  Agent :: Agent
  HTTP :: HTTP
  TLS :: TLS
  Prometheus :: Prometheus
  Database :: Database
  DigitalOcean :: DigitalOcean
  Google :: Google

text \<open>The zero value of \<^verbatim>\<open>Config\<close>: what Go allocates before any field is set.\<close>

definition zero_Config :: Config where
  "zero_Config =
     \<lparr> Interval = 0,
       Slack = \<lparr> Webhook = [] \<rparr>,
       Logs = \<lparr> Color = False, Debug = False, Pretty = False \<rparr>,
       Pool = \<lparr> Min_pool = 0, Max_pool = 0, MinAge = 0 \<rparr>,
       Server = \<lparr> Server.Host = [], Proto = [], Server.Token = [] \<rparr>,
       Agent = \<lparr> Agent.Host = [], Agent.Token = [], Agent.Image = [], Concurrency = 0 \<rparr>,
       HTTP = \<lparr> HTTP.Host = [], Port = [] \<rparr>,
       TLS = \<lparr> Autocert = False, Cert = [], Key = [] \<rparr>,
       Prometheus = \<lparr> Prometheus.Token = [] \<rparr>,
       Database = \<lparr> Path = [] \<rparr>,
       DigitalOcean = \<lparr> DigitalOcean.Token = [], DigitalOcean.Image = [], Region = [],
         SSHKey = [], Size = [], IPv6 = False, DigitalOcean.Tags = [] \<rparr>,
       Google = \<lparr> Zone = [], MachineType = [], MachineImage = [], DiskType = [],
         Address = [], Network = [], Subnetwork = [], Preemptible = False, Scopes = [],
         DiskSize = 0, Project = [], Google.Tags = [] \<rparr> \<rparr>"

subsection \<open>The struct tags\<close>

text \<open>
  The declaration of \<^verbatim>\<open>Config\<close> as data: every leaf field with its path, its Go type,
  its \<^verbatim>\<open>default\<close> tag (when it has one) and whether it is tagged
  \<^verbatim>\<open>split_words:"true"\<close>, in the order of the source.
\<close>

datatype go_type = GoDuration | GoString | GoBool | GoInt | GoStrings

record field_decl =
  field_path :: "string list"
  field_type :: go_type
  default_tag :: "string option"
  split_words :: bool

definition decl :: "string list \<Rightarrow> go_type \<Rightarrow> string option \<Rightarrow> bool \<Rightarrow> field_decl" where
  "decl p t d s = \<lparr> field_path = p, field_type = t, default_tag = d, split_words = s \<rparr>"

definition Config_fields :: "field_decl list" where
  "Config_fields =
   [ decl [''Interval''] GoDuration (Some ''5m'') False,
     decl [''Slack'', ''Webhook''] GoString None False,
     decl [''Logs'', ''Color''] GoBool None False,
     decl [''Logs'', ''Debug''] GoBool None False,
     decl [''Logs'', ''Pretty''] GoBool None False,
     decl [''Pool'', ''Min''] GoInt (Some ''2'') False,
     decl [''Pool'', ''Max''] GoInt (Some ''4'') False,
     decl [''Pool'', ''MinAge''] GoDuration (Some ''60m'') True,
     decl [''Server'', ''Host''] GoString None False,
     decl [''Server'', ''Proto''] GoString None False,
     decl [''Server'', ''Token''] GoString None False,
     decl [''Agent'', ''Host''] GoString None False,
     decl [''Agent'', ''Token''] GoString None False,
     decl [''Agent'', ''Image''] GoString None False,
     decl [''Agent'', ''Concurrency''] GoInt None False,
     decl [''HTTP'', ''Host''] GoString None False,
     decl [''HTTP'', ''Port''] GoString (Some '':8080'') False,
     decl [''TLS'', ''Autocert''] GoBool None False,
     decl [''TLS'', ''Cert''] GoString None False,
     decl [''TLS'', ''Key''] GoString None False,
     decl [''Prometheus'', ''Token''] GoString None False,
     decl [''Database'', ''Path''] GoString (Some ''snapshot.db'') False,
     decl [''DigitalOcean'', ''Token''] GoString None False,
     decl [''DigitalOcean'', ''Image''] GoString (Some ''docker-16-04'') False,
     decl [''DigitalOcean'', ''Region''] GoString (Some ''nyc3'') False,
     decl [''DigitalOcean'', ''SSHKey''] GoString None False,
     decl [''DigitalOcean'', ''Size''] GoString (Some ''s-1vcpu-1gb'') False,
     decl [''DigitalOcean'', ''IPv6''] GoBool None False,
     decl [''DigitalOcean'', ''Tags''] GoStrings None False,
     decl [''Google'', ''Zone''] GoString (Some ''us-central1-a'') False,
     decl [''Google'', ''MachineType''] GoString (Some ''n1-standard-1'') True,
     decl [''Google'', ''MachineImage''] GoString (Some ''ubuntu-1510-wily-v20151114'') True,
     decl [''Google'', ''DiskType''] GoString (Some ''pd-standard'') True,
     decl [''Google'', ''Address''] GoString None False,
     decl [''Google'', ''Network''] GoString (Some ''default'') False,
     decl [''Google'', ''Subnetwork''] GoString None False,
     decl [''Google'', ''Preemptible''] GoBool None False,
     decl [''Google'', ''Scopes''] GoString None False,
     decl [''Google'', ''DiskSize''] GoInt None True,
     decl [''Google'', ''Project''] GoString None False,
     decl [''Google'', ''Tags''] GoStrings None False ]"

fun lookup_decl :: "field_decl list \<Rightarrow> string list \<Rightarrow> field_decl option" where
  "lookup_decl [] p = None"
| "lookup_decl (d # ds) p = (if field_path d = p then Some d else lookup_decl ds p)"

text \<open>
  The text a field is decoded from. The loader reads the process environment, here the
  map \<open>env\<close> from a field's path to the text supplied for it; a field the environment
  does not set takes its \<^verbatim>\<open>default\<close> tag, and one with neither keeps its zero value
  (\<open>None\<close>).
\<close>

definition field_text :: "(string list \<Rightarrow> string option) \<Rightarrow> string list \<Rightarrow> string option" where
  "field_text env p =
     (case env p of
        Some v \<Rightarrow> Some v
      | None \<Rightarrow> (case lookup_decl Config_fields p of
                   None \<Rightarrow> None
                 | Some d \<Rightarrow> default_tag d))"

definition no_overrides :: "string list \<Rightarrow> string option" where
  "no_overrides p = None"

section \<open>The values main wires together\<close>

datatype error =
    errors_New string
  | DuplicateName
  | NotFound
  | ProviderError string
  | RegistryError string
  | QueueSourceError string

text \<open>
  An \<^verbatim>\<open>autoscaler.Provider\<close> value: the vendor adapter built by the driver's
  constructor, or a decorator holding the provider it was given.
\<close>

datatype provider =
    digitalocean_Provider Config
  | metrics_ServerCreate provider
  | metrics_ServerDelete provider
  | slack_New Config provider

subsection \<open>setupProvider\<close>

text \<open>
  \<^verbatim>\<open>digitalocean.FromConfig\<close> lives in the driver package; it is the parameter
  \<open>FromConfig\<close>, returning a provider or an error as its Go signature says.
\<close>

definition setupProvider ::
  "(Config \<Rightarrow> error + provider) \<Rightarrow> Config \<Rightarrow> error + provider" where
  "setupProvider FromConfig c =
     (if DigitalOcean.Token (DigitalOcean c) \<noteq> [] then FromConfig c
      else Inl (errors_New ''missing provider configuration''))"

subsection \<open>setupLogging\<close>

datatype level = InfoLevel | DebugLevel

datatype log_output = default_output | ConsoleWriter (NoColor: bool)

record logging =
  global_level :: level
  logger :: log_output

definition setupLogging :: "Config \<Rightarrow> logging" where
  "setupLogging c =
     \<lparr> global_level = (if Debug (Logs c) then DebugLevel else InfoLevel),
       logger = (if Pretty (Logs c) then ConsoleWriter (\<not> Color (Logs c))
                 else default_output) \<rparr>"

subsection \<open>setupClient\<close>

text \<open>
  The coordinator's client is built from an HTTP client carrying the access token and
  from a URL of which only the scheme and the host are set. The URL is kept as the value
  whose \<^verbatim>\<open>String()\<close> is handed to \<^verbatim>\<open>drone.NewClient\<close>.
\<close>

record URL =
  Scheme :: string
  Host :: string

datatype http_client = oauth2_Client (AccessToken: string)

datatype client = drone_NewClient URL http_client

definition setupClient :: "Config \<Rightarrow> client" where
  "setupClient c =
     drone_NewClient \<lparr> Scheme = Proto (Server c), URL.Host = Server.Host (Server c) \<rparr>
       (oauth2_Client (Server.Token (Server c)))"

subsection \<open>The store\<close>

text \<open>An open database handle, named by the file it was opened at.\<close>

datatype db = DB string

datatype server_store =
    store_NewServerStore db
  | metrics_ServerCount server_store

text \<open>How a process ends before its time: a fatal log entry, or a panic.\<close>

datatype exit =
    log_Fatal string error
  | panic_error error
  | panic_text string

text \<open>
  Modelled from the spec: \<^verbatim>\<open>store.Must\<close> is in the store package, not in these sources.
  The specification makes a persistence failure at startup fatal, and a Go function
  named \<^verbatim>\<open>Must\<close> panics with the error it would otherwise return; \<open>open_db\<close> is the
  database driver's open call.
\<close>

definition store_Must :: "(string \<Rightarrow> error + db) \<Rightarrow> string \<Rightarrow> exit + db" where
  "store_Must open_db path =
     (case open_db path of
        Inl err \<Rightarrow> Inl (panic_error err)
      | Inr d \<Rightarrow> Inr d)"

subsection \<open>Handlers and middleware\<close>

datatype handler =
    HandleMetrics string
  | HandleVersion string string string
  | HandleHealthz
  | HandleQueueList client
  | HandleServerList server_store
  | HandleServerCreate server_store provider Config
  | HandleServerFind server_store
  | HandleServerDelete server_store provider

datatype middleware =
    hlog_NewHandler
  | hlog_RemoteAddrHandler string
  | hlog_URLHandler string
  | hlog_MethodHandler string
  | hlog_RequestIDHandler string string
  | CheckDrone Config

section \<open>The router\<close>

text \<open>
  What main needs of the chi router. A mux holds its middleware stack and its routes;
  \<^verbatim>\<open>Use\<close> panics once the mux has a route, a method call adds an endpoint, and
  \<^verbatim>\<open>Route\<close> runs its function on a new mux and mounts it under the pattern. A mounted
  mux is stored flattened: each of its routes, the pattern prefixed, carrying the
  middleware of the muxes it was mounted through.
\<close>

datatype http_method = GET | POST | DELETE

record route =
  route_method :: http_method
  route_pattern :: string
  route_middlewares :: "middleware list"
  route_handler :: handler

record mux =
  middlewares :: "middleware list"
  handler_built :: bool
  routes :: "route list"

definition NewRouter :: mux where
  "NewRouter = \<lparr> middlewares = [], handler_built = False, routes = [] \<rparr>"

definition mux_Use :: "middleware \<Rightarrow> mux \<Rightarrow> exit + mux" where
  "mux_Use m r =
     (if handler_built r
      then Inl (panic_text ''chi: all middlewares must be defined before routes on a mux'')
      else Inr (r\<lparr> middlewares := middlewares r @ [m] \<rparr>))"

definition mux_Method :: "http_method \<Rightarrow> string \<Rightarrow> handler \<Rightarrow> mux \<Rightarrow> exit + mux" where
  "mux_Method meth pattern h r =
     Inr (r\<lparr> handler_built := True,
             routes := routes r @
               [\<lparr> route_method = meth, route_pattern = pattern,
                  route_middlewares = [], route_handler = h \<rparr>] \<rparr>)"

definition mounted :: "string \<Rightarrow> mux \<Rightarrow> route \<Rightarrow> route" where
  "mounted pattern sub rt =
     rt\<lparr> route_pattern := pattern @ route_pattern rt,
         route_middlewares := middlewares sub @ route_middlewares rt \<rparr>"

definition mux_Mount :: "string \<Rightarrow> mux \<Rightarrow> mux \<Rightarrow> exit + mux" where
  "mux_Mount pattern sub r =
     Inr (r\<lparr> handler_built := True,
             routes := routes r @ map (mounted pattern sub) (routes sub) \<rparr>)"

text \<open>The calls main makes on a router, in the order it makes them.\<close>

datatype call =
    Use middleware
  | Get string handler
  | Post string handler
  | Delete string handler
  | Route string "call list"

fun apply_call :: "call \<Rightarrow> mux \<Rightarrow> exit + mux"
  and apply_calls :: "call list \<Rightarrow> mux \<Rightarrow> exit + mux" where
  "apply_call (Use m) r = mux_Use m r"
| "apply_call (Get pattern h) r = mux_Method GET pattern h r"
| "apply_call (Post pattern h) r = mux_Method POST pattern h r"
| "apply_call (Delete pattern h) r = mux_Method DELETE pattern h r"
| "apply_call (Route pattern fn) r =
     (case apply_calls fn NewRouter of
        Inl e \<Rightarrow> Inl e
      | Inr sub \<Rightarrow> mux_Mount pattern sub r)"
| "apply_calls [] r = Inr r"
| "apply_calls (c # cs) r =
     (case apply_call c r of
        Inl e \<Rightarrow> Inl e
      | Inr r' \<Rightarrow> apply_calls cs r')"

text \<open>The middleware a request to a route passes, outermost first, before its handler.\<close>

definition chain :: "mux \<Rightarrow> route \<Rightarrow> middleware list" where
  "chain r rt = middlewares r @ route_middlewares rt"

section \<open>main\<close>

definition source :: string where
  "source = ''https://github.com/drone/autoscaler.git''"

datatype gauge = metrics_MinPool Config | metrics_MaxPool Config

record Scaler =
  Client :: client
  Config :: Config
  Servers :: server_store
  Provider :: provider

datatype goroutine =
    srv_Serve_autocert string
  | srv_ListenAndServeTLS string string
  | srv_ListenAndServe string
  | scaler_Start Scaler Duration

text \<open>
  The state main has built when it reaches \<^verbatim>\<open>g.Wait()\<close>: the gauges and the logging
  it set up, the open database, the router behind the HTTP server, and the goroutines
  of the error group in the order they were started.
\<close>

record process =
  gauges :: "gauge list"
  logs :: logging
  database :: db
  router :: mux
  goroutines :: "goroutine list"

definition decorate :: "Config \<Rightarrow> provider \<Rightarrow> provider" where
  "decorate conf p =
     (let provider = metrics_ServerCreate p;
          provider = metrics_ServerDelete provider
      in if Webhook (Slack conf) \<noteq> [] then slack_New conf provider else provider)"

definition main_routes ::
  "string \<Rightarrow> string \<Rightarrow> Config \<Rightarrow> client \<Rightarrow> server_store \<Rightarrow> provider \<Rightarrow> call list" where
  "main_routes version commit conf client servers provider =
   [ Use hlog_NewHandler,
     Use (hlog_RemoteAddrHandler ''ip''),
     Use (hlog_URLHandler ''path''),
     Use (hlog_MethodHandler ''method''),
     Use (hlog_RequestIDHandler ''request_id'' ''Request-Id''),
     Get ''/metrics'' (HandleMetrics (Prometheus.Token (Prometheus conf))),
     Get ''/version'' (HandleVersion source version commit),
     Get ''/healthz'' HandleHealthz,
     Route ''/api''
       [ Use (CheckDrone conf),
         Get ''/queue'' (HandleQueueList client),
         Get ''/servers'' (HandleServerList servers),
         Post ''/servers'' (HandleServerCreate servers provider conf),
         Get ''/servers/{name}'' (HandleServerFind servers),
         Delete ''/servers/{name}'' (HandleServerDelete servers provider) ] ]"

definition serve :: "Config \<Rightarrow> goroutine" where
  "serve conf =
     (if Autocert (TLS conf) then srv_Serve_autocert (HTTP.Host (HTTP conf))
      else if Cert (TLS conf) \<noteq> [] then srv_ListenAndServeTLS (Cert (TLS conf)) (Key (TLS conf))
      else srv_ListenAndServe (Port (HTTP conf)))"

text \<open>
  main up to \<^verbatim>\<open>g.Wait()\<close>. The configuration is the value \<^verbatim>\<open>config.MustLoad\<close>
  returned; \<open>version\<close> and \<open>commit\<close> are the package variables the linker sets.
\<close>

definition main ::
  "(Config \<Rightarrow> error + provider) \<Rightarrow> (string \<Rightarrow> error + db) \<Rightarrow> string \<Rightarrow> string \<Rightarrow>
   Config \<Rightarrow> exit + process" where
  "main FromConfig open_db version commit conf =
     (case setupProvider FromConfig conf of
        Inl err \<Rightarrow> Inl (log_Fatal ''Invalid or missing hosting provider'' err)
      | Inr p \<Rightarrow>
          (let provider = decorate conf p
           in case store_Must open_db (Path (Database conf)) of
                Inl e \<Rightarrow> Inl e
              | Inr d \<Rightarrow>
                  (let servers = metrics_ServerCount (store_NewServerStore d);
                       client = setupClient conf
                   in case apply_calls
                             (main_routes version commit conf client servers provider)
                             NewRouter of
                        Inl e \<Rightarrow> Inl e
                      | Inr r \<Rightarrow>
                          Inr \<lparr> gauges = [metrics_MinPool conf, metrics_MaxPool conf],
                                logs = setupLogging conf,
                                database = d,
                                router = r,
                                goroutines =
                                  [ serve conf,
                                    scaler_Start
                                      \<lparr> Client = client, Config = conf,
                                        Servers = servers, Provider = provider \<rparr>
                                      (Interval conf) ] \<rparr>)))"

text \<open>
  \<^verbatim>\<open>g.Wait()\<close> hands back the first error a goroutine returned, if any did; main
  then logs it as fatal. \<open>results\<close> are the goroutines' return values in the order they
  returned.
\<close>

fun Wait :: "error option list \<Rightarrow> error option" where
  "Wait [] = None"
| "Wait (None # rs) = Wait rs"
| "Wait (Some err # rs) = Some err"

definition main_wait :: "error option list \<Rightarrow> exit option" where
  "main_wait results =
     (case Wait results of
        None \<Rightarrow> None
      | Some err \<Rightarrow> Some (log_Fatal ''Program terminated'' err))"

section \<open>The decorators\<close>

datatype provider_method = Create | Destroy

text \<open>
  Modelled from the spec: the methods of the decorators are in the metrics and slack
  packages, not in these sources. The specification has metrics instrumentation wrap the
  provider and a notification decorator announce create and delete events, each
  implementing the interface of what it wraps and delegating to the instance it holds.
  \<open>observes\<close> says which calls a decorator takes note of.
\<close>

fun observes :: "provider \<Rightarrow> provider_method \<Rightarrow> bool" where
  "observes (digitalocean_Provider c) m = False"
| "observes (metrics_ServerCreate p) m = (m = Create)"
| "observes (metrics_ServerDelete p) m = (m = Destroy)"
| "observes (slack_New c p) m = True"

text \<open>
  Modelled from the spec: a call of a provider method, the packages of the decorators and
  of the driver being elsewhere. \<open>driver\<close> is what the vendor adapter does with the call;
  a decorator hands the call to the provider it wraps, returns what that returned and,
  when it observes the method, adds itself to the observers of the call.
\<close>

fun provider_call ::
  "(Config \<Rightarrow> provider_method \<Rightarrow> 'a \<Rightarrow> 'r) \<Rightarrow> provider \<Rightarrow> provider_method \<Rightarrow> 'a \<Rightarrow>
   'r \<times> provider list" where
  "provider_call driver (digitalocean_Provider c) m x = (driver c m x, [])"
| "provider_call driver (metrics_ServerCreate p) m x =
     (case provider_call driver p m x of
        (res, seen) \<Rightarrow>
          (res, if observes (metrics_ServerCreate p) m
                then seen @ [metrics_ServerCreate p] else seen))"
| "provider_call driver (metrics_ServerDelete p) m x =
     (case provider_call driver p m x of
        (res, seen) \<Rightarrow>
          (res, if observes (metrics_ServerDelete p) m
                then seen @ [metrics_ServerDelete p] else seen))"
| "provider_call driver (slack_New c p) m x =
     (case provider_call driver p m x of
        (res, seen) \<Rightarrow>
          (res, if observes (slack_New c p) m then seen @ [slack_New c p] else seen))"

text \<open>
  Modelled from the spec: a call of a store method, the store and metrics packages being
  elsewhere. \<open>backend\<close> is what the store does with the call on its database; the
  counting decorator hands the call to the store it wraps and returns what that returned.
\<close>

fun store_call :: "(db \<Rightarrow> 'a \<Rightarrow> 'r) \<Rightarrow> server_store \<Rightarrow> 'a \<Rightarrow> 'r \<times> server_store list" where
  "store_call backend (store_NewServerStore d) x = (backend d x, [])"
| "store_call backend (metrics_ServerCount s) x =
     (case store_call backend s x of
        (res, seen) \<Rightarrow> (res, seen @ [metrics_ServerCount s]))"

text \<open>The provider, or the store, a stack of decorators ends in.\<close>

fun innermost :: "provider \<Rightarrow> provider" where
  "innermost (digitalocean_Provider c) = digitalocean_Provider c"
| "innermost (metrics_ServerCreate p) = innermost p"
| "innermost (metrics_ServerDelete p) = innermost p"
| "innermost (slack_New c p) = innermost p"

section \<open>The scaler\<close>

subsection \<open>The target and the decision\<close>

text \<open>
  Modelled from the spec: the scaler package is not in these sources. The quotient of
  the pending jobs by the concurrency of one agent, rounded up, on Go's integers.
\<close>

definition ceil_div :: "int \<Rightarrow> int \<Rightarrow> int" where
  "ceil_div p c = - ((- p) div c)"

text \<open>Modelled from the spec: clamping a count to the bounds of the pool.\<close>

definition clamp :: "int \<Rightarrow> int \<Rightarrow> int \<Rightarrow> int" where
  "clamp lo hi x = (if x < lo then lo else if hi < x then hi else x)"

text \<open>
  Modelled from the spec: step 3 of the tick, \<^verbatim>\<open>desiredCount = ceil(P / C)\<close> clamped
  to \<^verbatim>\<open>[Min, Max]\<close>.
\<close>

definition desiredCount :: "int \<Rightarrow> int \<Rightarrow> int \<Rightarrow> int \<Rightarrow> int" where
  "desiredCount P C lo hi = clamp lo hi (ceil_div P C)"

datatype decision = toCreate int | toDestroy int | NoAction

text \<open>
  Modelled from the spec: step 4 of the tick, from the desired and the current count of
  active instances and the bounds of the pool.
\<close>

definition decide :: "int \<Rightarrow> int \<Rightarrow> int \<Rightarrow> int \<Rightarrow> decision" where
  "decide desired currentCount lo hi =
     (if desired > currentCount \<and> currentCount < hi
      then toCreate (min desired hi - currentCount)
      else if desired < currentCount \<and> currentCount > lo
      then toDestroy (currentCount - max desired lo)
      else NoAction)"

subsection \<open>The instance registry\<close>

datatype state =
    StatePending
  | StateCreating
  | StateRunning
  | StateStopping
  | StateStopped
  | StateError

record Instance =
  Name :: string
  Address :: string
  Capacity :: int
  State :: state
  CreatedAt :: int
  StoppedAt :: int
  Error :: string

type_synonym registry = "Instance list"

text \<open>
  Modelled from the spec: the registry of section 4.1, the store package being
  elsewhere; the records in the order they were inserted.
\<close>

definition registry_Create :: "Instance \<Rightarrow> registry \<Rightarrow> error + registry" where
  "registry_Create r reg =
     (if Name r \<in> set (map Name reg) then Inl DuplicateName else Inr (reg @ [r]))"

text \<open>Modelled from the spec: \<^verbatim>\<open>Update\<close> replaces the record of that name in place.\<close>

definition registry_Update :: "Instance \<Rightarrow> registry \<Rightarrow> error + registry" where
  "registry_Update r reg =
     (if Name r \<in> set (map Name reg)
      then Inr (map (\<lambda>x. if Name x = Name r then r else x) reg)
      else Inl NotFound)"

text \<open>Modelled from the spec: inserting, and replacing, records one after the other.\<close>

fun create_records :: "Instance list \<Rightarrow> registry \<Rightarrow> error option \<times> registry" where
  "create_records [] reg = (None, reg)"
| "create_records (i # rest) reg =
     (case registry_Create i reg of
        Inl e \<Rightarrow> (Some e, reg)
      | Inr reg' \<Rightarrow> create_records rest reg')"

fun update_records :: "Instance list \<Rightarrow> registry \<Rightarrow> error option \<times> registry" where
  "update_records [] reg = (None, reg)"
| "update_records (i # rest) reg =
     (case registry_Update i reg of
        Inl e \<Rightarrow> (Some e, reg)
      | Inr reg' \<Rightarrow> update_records rest reg')"

subsection \<open>One tick\<close>

text \<open>
  What one tick meets outside the scaler: the answers of the queue source, a failure of
  the persistence layer if there is one, the time, the names generated for new
  instances, and what the provider answers for each instance.
\<close>

record tick_env =
  GetPendingCount :: "error + int"
  GetConcurrency :: int
  storage_failure :: "error option"
  now :: int
  fresh_name :: "nat \<Rightarrow> string"
  CreateInstance :: "Instance \<Rightarrow> error + string"
  DestroyInstance :: "Instance \<Rightarrow> error option"

datatype tick_outcome =
    Skipped error
  | Aborted error
  | Completed "error list"

fun message :: "error \<Rightarrow> string" where
  "message (errors_New m) = m"
| "message DuplicateName = ''DuplicateName''"
| "message NotFound = ''NotFound''"
| "message (ProviderError m) = m"
| "message (RegistryError m) = m"
| "message (QueueSourceError m) = m"

text \<open>
  Modelled from the spec: which records count as active capacity, and which may be
  destroyed (the minimum-age guard), as the invariants of section 3 have it.
\<close>

definition active :: "Instance \<Rightarrow> bool" where
  "active i = (State i = StateCreating \<or> State i = StateRunning)"

definition eligible :: "int \<Rightarrow> Duration \<Rightarrow> Instance \<Rightarrow> bool" where
  "eligible t age i = (State i = StateRunning \<and> age \<le> t - CreatedAt i)"

text \<open>
  Modelled from the spec: the record written before the provider is called, and the
  record written after it has answered (step 5 of the tick), with the error to log.
\<close>

definition creating :: "tick_env \<Rightarrow> nat \<Rightarrow> Instance" where
  "creating env k =
     \<lparr> Name = fresh_name env k, Address = [], Capacity = GetConcurrency env,
       State = StateCreating, CreatedAt = now env, StoppedAt = 0, Error = [] \<rparr>"

definition created :: "tick_env \<Rightarrow> Instance \<Rightarrow> Instance \<times> error option" where
  "created env i =
     (case CreateInstance env i of
        Inr address \<Rightarrow> (i\<lparr> Address := address, State := StateRunning \<rparr>, None)
      | Inl e \<Rightarrow> (i\<lparr> State := StateError, Error := message e \<rparr>, Some e))"

definition stopping :: "Instance \<Rightarrow> Instance" where
  "stopping i = i\<lparr> State := StateStopping \<rparr>"

definition destroyed :: "tick_env \<Rightarrow> Instance \<Rightarrow> Instance \<times> error option" where
  "destroyed env i =
     (case DestroyInstance env i of
        None \<Rightarrow> (i\<lparr> State := StateStopped, StoppedAt := now env \<rparr>, None)
      | Some e \<Rightarrow> (i\<lparr> State := StateError, Error := message e \<rparr>, Some e))"

text \<open>
  Modelled from the spec: steps 5 and 6 of the tick. The records are written first, the
  provider is called for each, the outcomes are written back and the provider's errors
  are collected; the tasks of the fan-out touch one record each, so their order does not
  show. A failure of the registry ends the tick where it stands.
\<close>

definition execute ::
  "Instance list \<Rightarrow> (Instance \<times> error option) list \<Rightarrow> (error option \<times> registry) \<Rightarrow>
   tick_outcome \<times> registry" where
  "execute before after recorded =
     (case recorded of
        (Some e, reg) \<Rightarrow> (Aborted e, reg)
      | (None, reg) \<Rightarrow>
          (case update_records (map fst after) reg of
             (Some e, reg') \<Rightarrow> (Aborted e, reg')
           | (None, reg') \<Rightarrow> (Completed (List.map_filter snd after), reg')))"

definition scale_up :: "tick_env \<Rightarrow> int \<Rightarrow> registry \<Rightarrow> tick_outcome \<times> registry" where
  "scale_up env n reg =
     (let new = map (creating env) [0 ..< nat n]
      in execute new (map (created env) new) (create_records new reg))"

definition candidates :: "tick_env \<Rightarrow> Duration \<Rightarrow> registry \<Rightarrow> Instance list" where
  "candidates env age reg =
     sort_key CreatedAt (filter (eligible (now env) age) (filter active reg))"

definition scale_down ::
  "tick_env \<Rightarrow> Duration \<Rightarrow> int \<Rightarrow> registry \<Rightarrow> tick_outcome \<times> registry" where
  "scale_down env age n reg =
     (let old = map stopping (take (nat n) (candidates env age reg))
      in execute old (map (destroyed env) old) (update_records old reg))"

text \<open>
  Modelled from the spec: the tick of section 4.3, with the failures of section 7. The
  queue source failing skips the tick, the registry failing aborts it, and the errors of
  the provider are part of a completed tick.
\<close>

definition tick :: "Config \<Rightarrow> tick_env \<Rightarrow> registry \<Rightarrow> tick_outcome \<times> registry" where
  "tick conf env reg =
     (case GetPendingCount env of
        Inl e \<Rightarrow> (Skipped e, reg)
      | Inr P \<Rightarrow>
          (case storage_failure env of
             Some e \<Rightarrow> (Aborted e, reg)
           | None \<Rightarrow>
               (let currentCount = int (length (filter active reg));
                    lo = Min_pool (Pool conf);
                    hi = Max_pool (Pool conf);
                    desired = desiredCount P (GetConcurrency env) lo hi
                in case decide desired currentCount lo hi of
                     toCreate n \<Rightarrow> scale_up env n reg
                   | toDestroy n \<Rightarrow> scale_down env (MinAge (Pool conf)) n reg
                   | NoAction \<Rightarrow> (Completed [], reg))))"

subsection \<open>The loop\<close>

text \<open>What the driver delivers to the loop: the next tick, or the cancellation.\<close>

datatype event = Tick tick_env | Cancel

text \<open>
  Modelled from the spec: \<^verbatim>\<open>scaler.Start\<close> is not in these sources. The loop runs a
  tick for each tick of the driver and returns when it is cancelled. The result says
  whether the loop has returned, with the outcome of every tick it ran and the registry
  it left; having consumed the events without returning, it waits for the next.
\<close>

fun Start :: "Scaler \<Rightarrow> event list \<Rightarrow> registry \<Rightarrow> bool \<times> tick_outcome list \<times> registry" where
  "Start sc [] reg = (False, [], reg)"
| "Start sc (Cancel # evs) reg = (True, [], reg)"
| "Start sc (Tick env # evs) reg =
     (case tick (Config sc) env reg of
        (out, reg') \<Rightarrow>
          (case Start sc evs reg' of
             (returned, outs, reg'') \<Rightarrow> (returned, out # outs, reg'')))"

section \<open>Reading the state main has built\<close>

definition endpoint :: "route \<Rightarrow> http_method \<times> string \<times> handler" where
  "endpoint rt = (route_method rt, route_pattern rt, route_handler rt)"

definition route_under :: "string \<Rightarrow> route \<Rightarrow> bool" where
  "route_under p rt = (take (length p) (route_pattern rt) = p)"

fun is_scaler_Start :: "goroutine \<Rightarrow> bool" where
  "is_scaler_Start (scaler_Start sc d) = True"
| "is_scaler_Start g = False"

fun is_slack_New :: "provider \<Rightarrow> bool" where
  "is_slack_New (slack_New c p) = True"
| "is_slack_New p = False"

definition logging_middlewares :: "middleware list" where
  "logging_middlewares =
     [ hlog_NewHandler, hlog_RemoteAddrHandler ''ip'', hlog_URLHandler ''path'',
       hlog_MethodHandler ''method'', hlog_RequestIDHandler ''request_id'' ''Request-Id'' ]"

section \<open>Example inputs\<close>

text \<open>
  A driver constructor that accepts every configuration, a database that opens and one
  that does not, and three configurations: one with a DigitalOcean token, one with a
  Slack webhook besides, one with only a Google project set.
\<close>

definition FromConfig_ok :: "Config \<Rightarrow> error + provider" where
  "FromConfig_ok c = Inr (digitalocean_Provider c)"

definition open_db_ok :: "string \<Rightarrow> error + db" where
  "open_db_ok path = Inr (DB path)"

definition open_db_fail :: "string \<Rightarrow> error + db" where
  "open_db_fail path = Inl (RegistryError ''open failed'')"

definition digitalocean_only :: Config where
  "digitalocean_only =
     zero_Config\<lparr> Interval := 5 * Minute,
                  Database := \<lparr> Path = ''snapshot.db'' \<rparr>,
                  DigitalOcean := (DigitalOcean zero_Config)\<lparr> DigitalOcean.Token := ''secret'' \<rparr> \<rparr>"

definition with_slack :: Config where
  "with_slack =
     digitalocean_only\<lparr> Slack := \<lparr> Webhook = ''https://hooks.slack.com/services/T'' \<rparr> \<rparr>"

definition google_only :: Config where
  "google_only = zero_Config\<lparr> Google := (Google zero_Config)\<lparr> Project := ''my-project'' \<rparr> \<rparr>"

text \<open>
  A scaler on a pool of two to four instances, and what a tick may meet: the queue
  source unreachable, the provider refusing every instance, the persistence layer
  failing, and ten pending jobs with everything in order.
\<close>

definition pool_2_4 :: Config where
  "pool_2_4 = digitalocean_only\<lparr> Pool := \<lparr> Min_pool = 2, Max_pool = 4, MinAge = 60 * Minute \<rparr> \<rparr>"

definition example_Scaler :: Scaler where
  "example_Scaler =
     \<lparr> Client = setupClient pool_2_4, Config = pool_2_4,
       Servers = metrics_ServerCount (store_NewServerStore (DB ''snapshot.db'')),
       Provider = decorate pool_2_4 (digitalocean_Provider pool_2_4) \<rparr>"

definition agent_name :: "nat \<Rightarrow> string" where
  "agent_name k = ''agent-'' @ replicate (Suc k) (CHR ''i'')"

definition queue_down :: tick_env where
  "queue_down =
     \<lparr> GetPendingCount = Inl (QueueSourceError ''unreachable''), GetConcurrency = 2,
       storage_failure = None, now = 0, fresh_name = agent_name,
       CreateInstance = (\<lambda>i. Inr ''10.0.0.1''), DestroyInstance = (\<lambda>i. None) \<rparr>"

definition provider_down :: tick_env where
  "provider_down =
     \<lparr> GetPendingCount = Inr 3, GetConcurrency = 2,
       storage_failure = None, now = 0, fresh_name = agent_name,
       CreateInstance = (\<lambda>i. Inl (ProviderError ''quota'')), DestroyInstance = (\<lambda>i. None) \<rparr>"

definition storage_down :: tick_env where
  "storage_down =
     \<lparr> GetPendingCount = Inr 3, GetConcurrency = 2,
       storage_failure = Some (RegistryError ''disk''), now = 0, fresh_name = agent_name,
       CreateInstance = (\<lambda>i. Inr ''10.0.0.1''), DestroyInstance = (\<lambda>i. None) \<rparr>"

definition demand_10 :: tick_env where
  "demand_10 =
     \<lparr> GetPendingCount = Inr 10, GetConcurrency = 2,
       storage_failure = None, now = 7200 * Second, fresh_name = agent_name,
       CreateInstance = (\<lambda>i. Inr ''10.0.0.1''), DestroyInstance = (\<lambda>i. None) \<rparr>"

definition running :: "string \<Rightarrow> Instance" where
  "running n =
     \<lparr> Name = n, Address = ''10.0.0.1'', Capacity = 2, State = StateRunning, CreatedAt = 0,
       StoppedAt = 0, Error = [] \<rparr>"

section \<open>Properties\<close>

subsection \<open>What main builds\<close>

lemma router_built:
  "apply_calls (main_routes version commit conf client servers provider) NewRouter =
     Inr \<lparr> middlewares =
             [ hlog_NewHandler, hlog_RemoteAddrHandler ''ip'', hlog_URLHandler ''path'',
               hlog_MethodHandler ''method'', hlog_RequestIDHandler ''request_id'' ''Request-Id'' ],
           handler_built = True,
           routes =
             [ \<lparr> route_method = GET, route_pattern = ''/metrics'', route_middlewares = [],
                 route_handler = HandleMetrics (Prometheus.Token (Prometheus conf)) \<rparr>,
               \<lparr> route_method = GET, route_pattern = ''/version'', route_middlewares = [],
                 route_handler = HandleVersion source version commit \<rparr>,
               \<lparr> route_method = GET, route_pattern = ''/healthz'', route_middlewares = [],
                 route_handler = HandleHealthz \<rparr>,
               \<lparr> route_method = GET, route_pattern = ''/api/queue'',
                 route_middlewares = [CheckDrone conf],
                 route_handler = HandleQueueList client \<rparr>,
               \<lparr> route_method = GET, route_pattern = ''/api/servers'',
                 route_middlewares = [CheckDrone conf],
                 route_handler = HandleServerList servers \<rparr>,
               \<lparr> route_method = POST, route_pattern = ''/api/servers'',
                 route_middlewares = [CheckDrone conf],
                 route_handler = HandleServerCreate servers provider conf \<rparr>,
               \<lparr> route_method = GET, route_pattern = ''/api/servers/{name}'',
                 route_middlewares = [CheckDrone conf],
                 route_handler = HandleServerFind servers \<rparr>,
               \<lparr> route_method = DELETE, route_pattern = ''/api/servers/{name}'',
                 route_middlewares = [CheckDrone conf],
                 route_handler = HandleServerDelete servers provider \<rparr> ] \<rparr>"
  by (simp add: main_routes_def NewRouter_def mux_Use_def mux_Method_def mux_Mount_def mounted_def)

lemma main_started:
  assumes "setupProvider FromConfig conf = Inr p0"
    and "open_db (Path (Database conf)) = Inr d"
  shows "main FromConfig open_db version commit conf =
     Inr \<lparr> gauges = [metrics_MinPool conf, metrics_MaxPool conf],
           logs = setupLogging conf,
           database = d,
           router =
             \<lparr> middlewares = logging_middlewares,
               handler_built = True,
               routes =
                 [ \<lparr> route_method = GET, route_pattern = ''/metrics'', route_middlewares = [],
                     route_handler = HandleMetrics (Prometheus.Token (Prometheus conf)) \<rparr>,
                   \<lparr> route_method = GET, route_pattern = ''/version'', route_middlewares = [],
                     route_handler = HandleVersion source version commit \<rparr>,
                   \<lparr> route_method = GET, route_pattern = ''/healthz'', route_middlewares = [],
                     route_handler = HandleHealthz \<rparr>,
                   \<lparr> route_method = GET, route_pattern = ''/api/queue'',
                     route_middlewares = [CheckDrone conf],
                     route_handler = HandleQueueList (setupClient conf) \<rparr>,
                   \<lparr> route_method = GET, route_pattern = ''/api/servers'',
                     route_middlewares = [CheckDrone conf],
                     route_handler =
                       HandleServerList (metrics_ServerCount (store_NewServerStore d)) \<rparr>,
                   \<lparr> route_method = POST, route_pattern = ''/api/servers'',
                     route_middlewares = [CheckDrone conf],
                     route_handler =
                       HandleServerCreate (metrics_ServerCount (store_NewServerStore d))
                         (decorate conf p0) conf \<rparr>,
                   \<lparr> route_method = GET, route_pattern = ''/api/servers/{name}'',
                     route_middlewares = [CheckDrone conf],
                     route_handler =
                       HandleServerFind (metrics_ServerCount (store_NewServerStore d)) \<rparr>,
                   \<lparr> route_method = DELETE, route_pattern = ''/api/servers/{name}'',
                     route_middlewares = [CheckDrone conf],
                     route_handler =
                       HandleServerDelete (metrics_ServerCount (store_NewServerStore d))
                         (decorate conf p0) \<rparr> ] \<rparr>,
           goroutines =
             [ serve conf,
               scaler_Start
                 \<lparr> Client = setupClient conf, Config = conf,
                   Servers = metrics_ServerCount (store_NewServerStore d),
                   Provider = decorate conf p0 \<rparr>
                 (Interval conf) ] \<rparr>"
  using assms
  by (simp add: main_def store_Must_def router_built logging_middlewares_def Let_def)

lemma main_Inr:
  assumes "main FromConfig open_db version commit conf = Inr p"
  shows "\<exists>p0 d. setupProvider FromConfig conf = Inr p0 \<and> open_db (Path (Database conf)) = Inr d"
  using assms
  by (auto simp: main_def store_Must_def Let_def split: sum.splits)

lemma main_Inl_provider:
  assumes "setupProvider FromConfig conf = Inl err"
  shows "main FromConfig open_db version commit conf =
           Inl (log_Fatal ''Invalid or missing hosting provider'' err)"
  using assms by (simp add: main_def)

lemma main_Inl_store:
  assumes "setupProvider FromConfig conf = Inr p0"
    and "open_db (Path (Database conf)) = Inl err"
  shows "main FromConfig open_db version commit conf = Inl (panic_error err)"
  using assms by (simp add: main_def store_Must_def Let_def)

lemma example_provider:
  "setupProvider FromConfig_ok digitalocean_only = Inr (digitalocean_Provider digitalocean_only)"
  by (simp add: setupProvider_def FromConfig_ok_def digitalocean_only_def zero_Config_def)

lemma example_db:
  "open_db_ok (Path (Database digitalocean_only)) = Inr (DB ''snapshot.db'')"
  by (simp add: open_db_ok_def digitalocean_only_def zero_Config_def)

lemma example_decorate:
  "decorate digitalocean_only p =  metrics_ServerDelete (metrics_ServerCreate p)"
  by (simp add: decorate_def digitalocean_only_def zero_Config_def)

lemma slack_provider:
  "setupProvider FromConfig_ok with_slack = Inr (digitalocean_Provider with_slack)"
  by (simp add: setupProvider_def FromConfig_ok_def with_slack_def digitalocean_only_def
      zero_Config_def)

lemma slack_db:
  "open_db_ok (Path (Database with_slack)) = Inr (DB ''snapshot.db'')"
  by (simp add: open_db_ok_def with_slack_def digitalocean_only_def zero_Config_def)

lemma slack_decorate:
  "decorate with_slack p = slack_New with_slack (metrics_ServerDelete (metrics_ServerCreate p))"
  by (simp add: decorate_def with_slack_def digitalocean_only_def zero_Config_def)

lemma serve_not_scaler: "\<not> is_scaler_Start (serve conf)"
  by (simp add: serve_def)

lemma example_interval:
  "Interval digitalocean_only = 300000000000" "Interval with_slack = 300000000000"
  by (simp_all add: with_slack_def digitalocean_only_def zero_Config_def Minute_def Second_def
      Nanosecond_def)

lemma example_webhook:
  "Webhook (Slack digitalocean_only) = []" "Webhook (Slack with_slack) \<noteq> []"
  by (simp_all add: with_slack_def digitalocean_only_def zero_Config_def)

lemma example_token: "Prometheus.Token (Prometheus digitalocean_only) = []"
  by (simp add: digitalocean_only_def zero_Config_def)

lemma provider_call_decorate:
  "fst (provider_call driver (decorate conf p0) m x) = fst (provider_call driver p0 m x)"
  by (simp add: decorate_def Let_def split: prod.splits)

lemma innermost_decorate: "innermost (decorate conf p0) = innermost p0"
  by (simp add: decorate_def Let_def)

lemma decorate_cases:
  "decorate conf p0 =
     (if Webhook (Slack conf) \<noteq> []
      then slack_New conf (metrics_ServerDelete (metrics_ServerCreate p0))
      else metrics_ServerDelete (metrics_ServerCreate p0))"
  by (simp add: decorate_def Let_def)

lemma is_slack_New_decorate:
  "is_slack_New (decorate conf p0) = (Webhook (Slack conf) \<noteq> [])"
  by (simp add: decorate_def Let_def)

subsection \<open>Selecting the provider\<close>

text \<open>
  C1, as the code has it. \<^verbatim>\<open>setupProvider\<close> hands a configuration with a
  DigitalOcean token to the DigitalOcean driver's constructor and returns what that
  returns; every other configuration gets the error "missing provider configuration",
  whatever its Google settings. Whenever \<^verbatim>\<open>setupProvider\<close> returns an error, main ends
  with the fatal log entry "Invalid or missing hosting provider" and has started nothing.
\<close>

theorem setupProvider_selects:
  "(DigitalOcean.Token (DigitalOcean c) \<noteq> [] \<longrightarrow> setupProvider FromConfig c = FromConfig c)
   \<and> (DigitalOcean.Token (DigitalOcean c) = [] \<longrightarrow>
        setupProvider FromConfig c = Inl (errors_New ''missing provider configuration''))
   \<and> (\<forall>err. setupProvider FromConfig c = Inl err \<longrightarrow>
        main FromConfig open_db version commit c =
          Inl (log_Fatal ''Invalid or missing hosting provider'' err))"
  by (simp add: setupProvider_def main_Inl_provider)

theorem setupProvider_selects_witness:
  "DigitalOcean.Token (DigitalOcean digitalocean_only) \<noteq> []
   \<and> setupProvider FromConfig_ok digitalocean_only = Inr (digitalocean_Provider digitalocean_only)
   \<and> DigitalOcean.Token (DigitalOcean google_only) = []
   \<and> setupProvider FromConfig_ok google_only = Inl (errors_New ''missing provider configuration'')
   \<and> main FromConfig_ok open_db_ok [] [] google_only =
       Inl (log_Fatal ''Invalid or missing hosting provider''
              (errors_New ''missing provider configuration''))"
  using setupProvider_selects [of digitalocean_only FromConfig_ok open_db_ok "[]" "[]"]
    setupProvider_selects [of google_only FromConfig_ok open_db_ok "[]" "[]"]
  by (simp add: digitalocean_only_def google_only_def zero_Config_def FromConfig_ok_def)

text \<open>
  C1 as stated fails: a configuration whose only provider setting is a Google project
  gets no Google provider but the error.
\<close>

theorem setupProvider_google_counterexample:
  "Project (Google google_only) \<noteq> []
   \<and> setupProvider FromConfig_ok google_only =
       Inl (errors_New ''missing provider configuration'')"
  by (simp add: google_only_def zero_Config_def setupProvider_def)

subsection \<open>The defaults of the configuration\<close>

text \<open>
  C9. With no override in the environment, the fields are decoded from their default
  tags: Interval from "5m", Pool.Min from "2", Pool.Max from "4", Pool.MinAge from "60m",
  HTTP.Port from ":8080" and Database.Path from "snapshot.db".
\<close>

theorem Config_defaults:
  "field_text no_overrides [''Interval''] = Some ''5m''
   \<and> field_text no_overrides [''Pool'', ''Min''] = Some ''2''
   \<and> field_text no_overrides [''Pool'', ''Max''] = Some ''4''
   \<and> field_text no_overrides [''Pool'', ''MinAge''] = Some ''60m''
   \<and> field_text no_overrides [''HTTP'', ''Port''] = Some '':8080''
   \<and> field_text no_overrides [''Database'', ''Path''] = Some ''snapshot.db''"
  by (simp add: field_text_def no_overrides_def Config_fields_def decl_def)

subsection \<open>The HTTP API\<close>

text \<open>
  C3. When main gets as far as starting its goroutines, the routes under /api are
  exactly five: GET /api/queue, whose handler is built from the coordinator's client,
  GET /api/servers and GET /api/servers/{name}, whose handlers are built from the
  servers store, and POST /api/servers and DELETE /api/servers/{name}, whose handlers are
  built from the servers store and the provider. Store and provider are the very values
  the scaler is started with; the only other routes are /metrics, /version and /healthz.
\<close>

theorem api_endpoints:
  assumes "setupProvider FromConfig conf = Inr p0"
    and "open_db (Path (Database conf)) = Inr d"
  shows "\<exists>p. main FromConfig open_db version commit conf = Inr p
     \<and> map endpoint (filter (route_under ''/api'') (routes (router p))) =
         [ (GET, ''/api/queue'', HandleQueueList (setupClient conf)),
           (GET, ''/api/servers'',
              HandleServerList (metrics_ServerCount (store_NewServerStore d))),
           (POST, ''/api/servers'',
              HandleServerCreate (metrics_ServerCount (store_NewServerStore d))
                (decorate conf p0) conf),
           (GET, ''/api/servers/{name}'',
              HandleServerFind (metrics_ServerCount (store_NewServerStore d))),
           (DELETE, ''/api/servers/{name}'',
              HandleServerDelete (metrics_ServerCount (store_NewServerStore d))
                (decorate conf p0)) ]
     \<and> map route_pattern (filter (\<lambda>rt. \<not> route_under ''/api'' rt) (routes (router p))) =
         [ ''/metrics'', ''/version'', ''/healthz'' ]
     \<and> filter is_scaler_Start (goroutines p) =
         [ scaler_Start
             \<lparr> Client = setupClient conf, Config = conf,
               Servers = metrics_ServerCount (store_NewServerStore d),
               Provider = decorate conf p0 \<rparr>
             (Interval conf) ]"
  by (simp add: main_started [where open_db = open_db and d = d, OF assms] endpoint_def route_under_def
      serve_not_scaler)

theorem api_endpoints_witness:
  "\<exists>p. main FromConfig_ok open_db_ok ''1.0'' ''abc'' digitalocean_only = Inr p
     \<and> map endpoint (filter (route_under ''/api'') (routes (router p))) =
         [ (GET, ''/api/queue'', HandleQueueList (setupClient digitalocean_only)),
           (GET, ''/api/servers'',
              HandleServerList (metrics_ServerCount (store_NewServerStore (DB ''snapshot.db'')))),
           (POST, ''/api/servers'',
              HandleServerCreate (metrics_ServerCount (store_NewServerStore (DB ''snapshot.db'')))
                (metrics_ServerDelete
                   (metrics_ServerCreate (digitalocean_Provider digitalocean_only)))
                digitalocean_only),
           (GET, ''/api/servers/{name}'',
              HandleServerFind (metrics_ServerCount (store_NewServerStore (DB ''snapshot.db'')))),
           (DELETE, ''/api/servers/{name}'',
              HandleServerDelete (metrics_ServerCount (store_NewServerStore (DB ''snapshot.db'')))
                (metrics_ServerDelete
                   (metrics_ServerCreate (digitalocean_Provider digitalocean_only)))) ]"
  using api_endpoints [where open_db = open_db_ok and version = "''1.0''" and commit = "''abc''",
      OF example_provider example_db]
  by (simp only: example_decorate) (elim exE conjE, intro exI conjI, assumption+)

text \<open>
  C10. Every route under /api, the queue read and the five server endpoints, is served
  behind the logging middleware followed by \<^verbatim>\<open>CheckDrone\<close>; /metrics, /version and
  /healthz pass the logging middleware only, which has no \<^verbatim>\<open>CheckDrone\<close> in it, and
  the handler of /metrics is built from the Prometheus token.
\<close>

theorem api_behind_CheckDrone:
  assumes "setupProvider FromConfig conf = Inr p0"
    and "open_db (Path (Database conf)) = Inr d"
  shows "\<exists>p. main FromConfig open_db version commit conf = Inr p
     \<and> map (\<lambda>rt. (route_method rt, route_pattern rt, chain (router p) rt))
           (filter (route_under ''/api'') (routes (router p))) =
         [ (GET, ''/api/queue'', logging_middlewares @ [CheckDrone conf]),
           (GET, ''/api/servers'', logging_middlewares @ [CheckDrone conf]),
           (POST, ''/api/servers'', logging_middlewares @ [CheckDrone conf]),
           (GET, ''/api/servers/{name}'', logging_middlewares @ [CheckDrone conf]),
           (DELETE, ''/api/servers/{name}'', logging_middlewares @ [CheckDrone conf]) ]
     \<and> map (\<lambda>rt. (endpoint rt, chain (router p) rt))
           (filter (\<lambda>rt. \<not> route_under ''/api'' rt) (routes (router p))) =
         [ ((GET, ''/metrics'', HandleMetrics (Prometheus.Token (Prometheus conf))),
            logging_middlewares),
           ((GET, ''/version'', HandleVersion source version commit), logging_middlewares),
           ((GET, ''/healthz'', HandleHealthz), logging_middlewares) ]
     \<and> CheckDrone conf \<notin> set logging_middlewares"
  by (simp add: main_started [where open_db = open_db and d = d, OF assms] endpoint_def
      route_under_def chain_def)
    (simp add: logging_middlewares_def)

theorem api_behind_CheckDrone_witness:
  "\<exists>p. main FromConfig_ok open_db_ok ''1.0'' ''abc'' digitalocean_only = Inr p
     \<and> map (\<lambda>rt. (route_method rt, route_pattern rt, chain (router p) rt))
           (filter (route_under ''/api'') (routes (router p))) =
         [ (GET, ''/api/queue'', logging_middlewares @ [CheckDrone digitalocean_only]),
           (GET, ''/api/servers'', logging_middlewares @ [CheckDrone digitalocean_only]),
           (POST, ''/api/servers'', logging_middlewares @ [CheckDrone digitalocean_only]),
           (GET, ''/api/servers/{name}'', logging_middlewares @ [CheckDrone digitalocean_only]),
           (DELETE, ''/api/servers/{name}'',
              logging_middlewares @ [CheckDrone digitalocean_only]) ]
     \<and> map (\<lambda>rt. (endpoint rt, chain (router p) rt))
           (filter (\<lambda>rt. \<not> route_under ''/api'' rt) (routes (router p))) =
         [ ((GET, ''/metrics'', HandleMetrics []), logging_middlewares),
           ((GET, ''/version'',
               HandleVersion ''https://github.com/drone/autoscaler.git'' ''1.0'' ''abc''),
            logging_middlewares),
           ((GET, ''/healthz'', HandleHealthz), logging_middlewares) ]"
  using api_behind_CheckDrone [where open_db = open_db_ok and version = "''1.0''"
      and commit = "''abc''", OF example_provider example_db]
  by (simp only: source_def example_token) (elim exE conjE, intro exI conjI, assumption+)

subsection \<open>The scaler routine\<close>

text \<open>
  C5. When main gets as far as starting its goroutines it starts two, of which exactly
  one is the scaler routine; it is started with the coordinator's client, the
  configuration, the servers store and the provider main has built, and with
  \<^verbatim>\<open>conf.Interval\<close> as its period, a field whose default tag is "5m".
\<close>

theorem one_scaler_routine:
  assumes "setupProvider FromConfig conf = Inr p0"
    and "open_db (Path (Database conf)) = Inr d"
  shows "\<exists>p. main FromConfig open_db version commit conf = Inr p
     \<and> filter is_scaler_Start (goroutines p) =
         [ scaler_Start
             \<lparr> Client = setupClient conf, Config = conf,
               Servers = metrics_ServerCount (store_NewServerStore d),
               Provider = decorate conf p0 \<rparr>
             (Interval conf) ]
     \<and> length (goroutines p) = 2
     \<and> field_text no_overrides [''Interval''] = Some ''5m''"
  by (simp add: main_started [where open_db = open_db and d = d, OF assms]
      serve_not_scaler field_text_def no_overrides_def Config_fields_def decl_def)

theorem one_scaler_routine_witness:
  "\<exists>p. main FromConfig_ok open_db_ok ''1.0'' ''abc'' digitalocean_only = Inr p
     \<and> filter is_scaler_Start (goroutines p) =
         [ scaler_Start
             \<lparr> Client = setupClient digitalocean_only, Config = digitalocean_only,
               Servers = metrics_ServerCount (store_NewServerStore (DB ''snapshot.db'')),
               Provider = metrics_ServerDelete
                 (metrics_ServerCreate (digitalocean_Provider digitalocean_only)) \<rparr>
             300000000000 ]"
  using one_scaler_routine [where open_db = open_db_ok and version = "''1.0''"
      and commit = "''abc''", OF example_provider example_db]
  by (simp only: example_decorate example_interval) (elim exE conjE, intro exI conjI, assumption+)

subsection \<open>Opening the store\<close>

text \<open>
  C6. If the database cannot be opened at the configured path, main does not get as far
  as starting anything: it has ended before, and when the provider was set up it ends in
  the panic of \<^verbatim>\<open>store.Must\<close> with the error of the open call.
\<close>

theorem store_failure_fatal:
  assumes "open_db (Path (Database conf)) = Inl err"
  shows "(\<exists>e. main FromConfig open_db version commit conf = Inl e)
     \<and> (setupProvider FromConfig conf = Inr p0 \<longrightarrow>
          main FromConfig open_db version commit conf = Inl (panic_error err))"
  using assms
  by (cases "setupProvider FromConfig conf") (simp_all add: main_Inl_provider main_Inl_store)

theorem store_failure_fatal_witness:
  "open_db_fail (Path (Database digitalocean_only)) = Inl (RegistryError ''open failed'')
   \<and> main FromConfig_ok open_db_fail ''1.0'' ''abc'' digitalocean_only =
       Inl (panic_error (RegistryError ''open failed''))"
  using store_failure_fatal [where open_db = open_db_fail and conf = digitalocean_only
      and err = "RegistryError ''open failed''" and FromConfig = FromConfig_ok
      and ?p0.0 = "digitalocean_Provider digitalocean_only"
      and version = "''1.0''" and commit = "''abc''"]
  by (simp add: open_db_fail_def example_provider)

subsection \<open>The decorators\<close>

text \<open>
  C7. The provider the scaler is started with is the configured provider wrapped by the
  metrics create decorator, then by the metrics delete decorator, and then by the Slack
  decorator if and only if the Slack webhook is not empty; the servers store is the
  store on the database wrapped by the metrics count decorator. A call on the wrapped
  provider returns what the call on the configured provider returns, and a call on the
  wrapped store what the store on the database returns.
\<close>

theorem decorators_wrap:
  assumes "setupProvider FromConfig conf = Inr p0"
    and "open_db (Path (Database conf)) = Inr d"
  shows "\<exists>p sc. main FromConfig open_db version commit conf = Inr p
     \<and> filter is_scaler_Start (goroutines p) = [scaler_Start sc (Interval conf)]
     \<and> Servers sc = metrics_ServerCount (store_NewServerStore d)
     \<and> Provider sc =
         (if Webhook (Slack conf) \<noteq> []
          then slack_New conf (metrics_ServerDelete (metrics_ServerCreate p0))
          else metrics_ServerDelete (metrics_ServerCreate p0))
     \<and> is_slack_New (Provider sc) = (Webhook (Slack conf) \<noteq> [])
     \<and> innermost (Provider sc) = innermost p0
     \<and> fst (provider_call driver (Provider sc) m x) = fst (provider_call driver p0 m x)
     \<and> fst (store_call backend (Servers sc) y) = backend d y"
proof -
  define sc where "sc = \<lparr> Client = setupClient conf, Config = conf,
      Servers = metrics_ServerCount (store_NewServerStore d),
      Provider = decorate conf p0 \<rparr>"
  obtain p where p: "main FromConfig open_db version commit conf = Inr p"
    and g: "goroutines p = [serve conf, scaler_Start sc (Interval conf)]"
    by (simp add: main_started [where open_db = open_db and d = d, OF assms] sc_def)
  have a: "filter is_scaler_Start (goroutines p) = [scaler_Start sc (Interval conf)]"
    by (simp add: g serve_not_scaler)
  have b: "Servers sc = metrics_ServerCount (store_NewServerStore d)"
    by (simp add: sc_def)
  have c: "Provider sc = decorate conf p0"
    by (simp add: sc_def)
  have e: "fst (store_call backend (Servers sc) y) = backend d y"
    by (simp add: b)
  show ?thesis
    using p a b e decorate_cases [of conf p0] is_slack_New_decorate [of conf p0]
      innermost_decorate [of conf p0] provider_call_decorate [of driver conf p0 m x]
    unfolding c [symmetric] by (intro exI conjI)
qed

theorem decorators_wrap_witness:
  "(\<exists>p sc. main FromConfig_ok open_db_ok ''1.0'' ''abc'' digitalocean_only = Inr p
     \<and> filter is_scaler_Start (goroutines p) = [scaler_Start sc 300000000000]
     \<and> Servers sc = metrics_ServerCount (store_NewServerStore (DB ''snapshot.db''))
     \<and> Provider sc =
         metrics_ServerDelete (metrics_ServerCreate (digitalocean_Provider digitalocean_only)))
   \<and> (\<exists>p sc. main FromConfig_ok open_db_ok ''1.0'' ''abc'' with_slack = Inr p
     \<and> filter is_scaler_Start (goroutines p) = [scaler_Start sc 300000000000]
     \<and> Provider sc =
         slack_New with_slack
           (metrics_ServerDelete (metrics_ServerCreate (digitalocean_Provider with_slack))))"
proof -
  have a: "\<exists>p sc. main FromConfig_ok open_db_ok ''1.0'' ''abc'' digitalocean_only = Inr p
     \<and> filter is_scaler_Start (goroutines p) = [scaler_Start sc 300000000000]
     \<and> Servers sc = metrics_ServerCount (store_NewServerStore (DB ''snapshot.db''))
     \<and> Provider sc =
         metrics_ServerDelete (metrics_ServerCreate (digitalocean_Provider digitalocean_only))"
    using decorators_wrap [where open_db = open_db_ok and version = "''1.0''"
      and commit = "''abc''" and driver = "\<lambda>c m x. x" and m = Create and x = "0::nat"
      and backend = "\<lambda>d y. y" and y = "0::nat", OF example_provider example_db]
    by (simp only: example_interval example_webhook simp_thms if_False) (elim exE conjE, intro exI conjI, assumption+)
  have b: "\<exists>p sc. main FromConfig_ok open_db_ok ''1.0'' ''abc'' with_slack = Inr p
     \<and> filter is_scaler_Start (goroutines p) = [scaler_Start sc 300000000000]
     \<and> Provider sc =
         slack_New with_slack
           (metrics_ServerDelete (metrics_ServerCreate (digitalocean_Provider with_slack)))"
    using decorators_wrap [where open_db = open_db_ok and version = "''1.0''"
      and commit = "''abc''" and driver = "\<lambda>c m x. x" and m = Create and x = "0::nat"
      and backend = "\<lambda>d y. y" and y = "0::nat", OF slack_provider slack_db]
    by (simp only: example_interval example_webhook simp_thms if_True) (elim exE conjE, intro exI conjI, assumption+)
  from a b show ?thesis by (rule conjI)
qed

subsection \<open>The target of a tick\<close>

lemma ceil_div_ceiling: "ceil_div p c = \<lceil>real_of_int p / real_of_int c\<rceil>"
proof -
  have "\<lfloor>- (real_of_int p / real_of_int c)\<rfloor> = \<lfloor>real_of_int (- p) / real_of_int c\<rfloor>"
    by simp
  also have "\<dots> = (- p) div c"
    by (rule floor_divide_of_int_eq)
  finally show ?thesis
    by (simp add: ceil_div_def ceiling_def)
qed

lemma clamp_max_min: "lo \<le> hi \<Longrightarrow> clamp lo hi x = max lo (min hi x)"
  by (simp add: clamp_def)

lemma example_Pool: "Pool pool_2_4 = \<lparr> Min_pool = 2, Max_pool = 4, MinAge = 60 * Minute \<rparr>"
  by (simp add: pool_2_4_def)

lemma tick_demand_10: "tick pool_2_4 demand_10 [running ''a'', running ''b''] =
  (Completed [], [running ''a'', running ''b'',
     \<lparr> Name = ''agent-i'', Address = ''10.0.0.1'', Capacity = 2, State = StateRunning, CreatedAt = 7200000000000,
       StoppedAt = 0, Error = [] \<rparr>,
     \<lparr> Name = ''agent-ii'', Address = ''10.0.0.1'', Capacity = 2, State = StateRunning, CreatedAt = 7200000000000,
       StoppedAt = 0, Error = [] \<rparr>])"
  by (simp add: tick_def demand_10_def example_Pool desiredCount_def clamp_def ceil_div_def decide_def
     scale_up_def execute_def creating_def created_def agent_name_def registry_Create_def registry_Update_def
     List.map_filter_def upt_rec Let_def running_def active_def Second_def Nanosecond_def)


text \<open>
  C2. For a concurrency above zero and bounds of the pool in order, the target of a tick
  is the quotient of the pending jobs by the concurrency, rounded up and clamped to the
  bounds, so it lies within them; with ten pending jobs, a concurrency of two, bounds two
  and four and two active instances, the decision is to create two instances.
\<close>

theorem desiredCount_target:
  assumes "0 < C" and "lo \<le> hi"
  shows "desiredCount P C lo hi = max lo (min hi \<lceil>real_of_int P / real_of_int C\<rceil>)
     \<and> lo \<le> desiredCount P C lo hi \<and> desiredCount P C lo hi \<le> hi
     \<and> decide (desiredCount 10 2 2 4) 2 2 4 = toCreate 2"
proof -
  have "desiredCount P C lo hi = max lo (min hi \<lceil>real_of_int P / real_of_int C\<rceil>)"
    using assms(2) by (simp add: desiredCount_def clamp_max_min ceil_div_ceiling)
  moreover have "lo \<le> desiredCount P C lo hi" "desiredCount P C lo hi \<le> hi"
    using assms(2) by (simp_all add: desiredCount_def clamp_def)
  moreover have "decide (desiredCount 10 2 2 4) 2 2 4 = toCreate 2"
    by (simp add: desiredCount_def clamp_def ceil_div_def decide_def)
  ultimately show ?thesis by simp
qed

theorem desiredCount_target_witness:
  "(0::int) < 2 \<and> (2::int) \<le> 4 \<and> desiredCount 10 2 2 4 = 4
   \<and> decide (desiredCount 10 2 2 4) 2 2 4 = toCreate 2
   \<and> length (filter active [running ''a'', running ''b'']) = 2
   \<and> length (filter active (snd (tick pool_2_4 demand_10 [running ''a'', running ''b'']))) = 4"
  using desiredCount_target [of 2 2 4 10]
  by (simp add: tick_demand_10) (simp add: desiredCount_def clamp_def ceil_div_def active_def running_def)

subsection \<open>The loop\<close>

lemma Start_returned: "fst (Start sc evs reg) = (Cancel \<in> set evs)"
proof (induction evs arbitrary: reg)
  case Nil
  show ?case by simp
next
  case (Cons ev evs)
  show ?case
  proof (cases ev)
    case (Tick env)
    then show ?thesis
      using Cons.IH by (simp split: prod.splits) (metis fst_conv)
  next
    case Cancel
    then show ?thesis by simp
  qed
qed

lemma Start_ticks:
  "length (fst (snd (Start sc evs reg))) = length (takeWhile (\<lambda>ev. ev \<noteq> Cancel) evs)"
proof (induction evs arbitrary: reg)
  case Nil
  show ?case by simp
next
  case (Cons ev evs)
  show ?case
  proof (cases ev)
    case (Tick env)
    then show ?thesis
      using Cons.IH by (simp split: prod.splits) (metis fst_conv snd_conv)
  next
    case Cancel
    then show ?thesis by simp
  qed
qed

lemma create_records_error:
  "create_records new reg = (Some e, reg') \<Longrightarrow> e = DuplicateName"
  by (induction new arbitrary: reg) (auto simp: registry_Create_def split: if_splits)

lemma update_records_error:
  "update_records new reg = (Some e, reg') \<Longrightarrow> e = NotFound"
  by (induction new arbitrary: reg) (auto simp: registry_Update_def split: if_splits)

lemma execute_Aborted:
  assumes "execute before after recorded = (Aborted e, reg')"
  shows "fst recorded = Some e \<or> e = NotFound"
proof (cases recorded)
  case (Pair failure reg)
  show ?thesis
  proof (cases failure)
    case (Some e')
    with Pair assms show ?thesis by (simp add: execute_def)
  next
    case None
    with Pair assms obtain reg'' where "update_records (map fst after) reg = (Some e, reg'')"
      by (auto simp: execute_def split: prod.splits option.splits)
    then show ?thesis by (simp add: update_records_error)
  qed
qed

lemma tick_Aborted:
  assumes "tick conf env reg = (Aborted e, reg')"
  shows "storage_failure env = Some e \<or> e = DuplicateName \<or> e = NotFound"
proof (cases "GetPendingCount env")
  case (Inl q)
  with assms show ?thesis by (simp add: tick_def)
next
  case (Inr P)
  show ?thesis
  proof (cases "storage_failure env")
    case (Some f)
    with Inr assms show ?thesis by (simp add: tick_def)
  next
    case None
    let ?d = "decide (desiredCount P (GetConcurrency env) (Min_pool (Pool conf))
        (Max_pool (Pool conf))) (int (length (filter active reg))) (Min_pool (Pool conf))
        (Max_pool (Pool conf))"
    show ?thesis
    proof (cases ?d)
      case (toCreate n)
      with Inr None assms have "scale_up env n reg = (Aborted e, reg')"
        by (simp add: tick_def Let_def)
      then have "fst (create_records (map (creating env) [0 ..< nat n]) reg) = Some e
          \<or> e = NotFound"
        unfolding scale_up_def Let_def by (rule execute_Aborted)
      then show ?thesis
        by (metis create_records_error prod.collapse)
    next
      case (toDestroy n)
      with Inr None assms have "scale_down env (MinAge (Pool conf)) n reg = (Aborted e, reg')"
        by (simp add: tick_def Let_def)
      then have "fst (update_records
            (map stopping (take (nat n) (candidates env (MinAge (Pool conf)) reg))) reg) = Some e
          \<or> e = NotFound"
        unfolding scale_down_def Let_def by (rule execute_Aborted)
      then show ?thesis
        by (metis update_records_error prod.collapse)
    next
      case NoAction
      with Inr None assms show ?thesis by (simp add: tick_def Let_def)
    qed
  qed
qed

lemma execute_not_Skipped: "execute before after recorded \<noteq> (Skipped e, reg')"
  by (auto simp: execute_def split: prod.splits option.splits)

lemma tick_Skipped:
  assumes "tick conf env reg = (Skipped e, reg')"
  shows "GetPendingCount env = Inl e \<and> reg' = reg"
proof (cases "GetPendingCount env")
  case (Inl q)
  with assms show ?thesis by (simp add: tick_def)
next
  case (Inr P)
  with assms have False
    by (auto simp: tick_def Let_def scale_up_def scale_down_def execute_not_Skipped
        split: option.splits decision.splits)
  then show ?thesis ..
qed

lemma tick_queue_down: "tick pool_2_4 queue_down [] = (Skipped (QueueSourceError ''unreachable''), [])"
  by (simp add: tick_def queue_down_def)

lemma tick_provider_down: "fst (tick pool_2_4 provider_down []) = Completed [ProviderError ''quota'', ProviderError ''quota'']"
  by (simp add: tick_def provider_down_def example_Pool desiredCount_def clamp_def ceil_div_def decide_def
     scale_up_def execute_def creating_def created_def agent_name_def registry_Create_def registry_Update_def
     List.map_filter_def upt_rec Let_def)

lemma tick_storage_down: "tick pool_2_4 storage_down [] = (Aborted (RegistryError ''disk''), [])"
  by (simp add: tick_def storage_down_def)

lemma Wait_None: "(Wait results = None) = (set results \<subseteq> {None})"
  by (induction results rule: Wait.induct) simp_all

lemma main_wait_None: "(main_wait results = None) = (set results \<subseteq> {None})"
  unfolding Wait_None [symmetric] by (simp add: main_wait_def split: option.splits)

lemma example_Config: "Config example_Scaler = pool_2_4"
  by (simp add: example_Scaler_def)

text \<open>
  C8. The loop returns exactly when it is cancelled: whatever the ticks meet, it has
  returned if and only if the cancellation is among the events delivered, and it has run
  one tick for every tick delivered before that. A tick is skipped only when the queue
  source fails, and then it leaves the registry as it was; a tick is aborted only by a
  failure of the registry. The errors of the provider are part of a completed tick.
  After \<^verbatim>\<open>g.Wait()\<close>, main logs a fatal error only when a goroutine has returned one.
\<close>

theorem scaler_keeps_ticking:
  "fst (Start sc evs reg) = (Cancel \<in> set evs)
   \<and> length (fst (snd (Start sc evs reg))) = length (takeWhile (\<lambda>ev. ev \<noteq> Cancel) evs)
   \<and> (\<forall>e reg'. tick conf env reg = (Skipped e, reg') \<longrightarrow>
         GetPendingCount env = Inl e \<and> reg' = reg)
   \<and> (\<forall>e reg'. tick conf env reg = (Aborted e, reg') \<longrightarrow>
         storage_failure env = Some e \<or> e = DuplicateName \<or> e = NotFound)
   \<and> (main_wait results = None) = (set results \<subseteq> {None})"
  using Start_returned [of sc evs reg] Start_ticks [of sc evs reg]
    tick_Skipped [of conf env reg] tick_Aborted [of conf env reg] main_wait_None [of results]
  by blast

theorem scaler_keeps_ticking_witness:
  "\<not> fst (Start example_Scaler [Tick queue_down, Tick provider_down] [])
   \<and> fst (snd (Start example_Scaler [Tick queue_down, Tick provider_down] [])) =
       [ Skipped (QueueSourceError ''unreachable''),
         Completed [ProviderError ''quota'', ProviderError ''quota''] ]
   \<and> fst (Start example_Scaler [Tick provider_down, Cancel, Tick queue_down] [])
   \<and> length (fst (snd (Start example_Scaler [Tick provider_down, Cancel, Tick queue_down] []))) = 1
   \<and> tick pool_2_4 queue_down [] = (Skipped (QueueSourceError ''unreachable''), [])
   \<and> GetPendingCount queue_down = Inl (QueueSourceError ''unreachable'')
   \<and> tick pool_2_4 storage_down [] = (Aborted (RegistryError ''disk''), [])
   \<and> storage_failure storage_down = Some (RegistryError ''disk'')
   \<and> main_wait [None] = None"
proof -
  have a: "\<not> fst (Start example_Scaler [Tick queue_down, Tick provider_down] [])"
    using scaler_keeps_ticking [of example_Scaler "[Tick queue_down, Tick provider_down]" "[]"]
    by simp
  have b: "fst (Start example_Scaler [Tick provider_down, Cancel, Tick queue_down] [])
      \<and> length (fst (snd (Start example_Scaler [Tick provider_down, Cancel, Tick queue_down] []))) = 1"
    using scaler_keeps_ticking [of example_Scaler "[Tick provider_down, Cancel, Tick queue_down]" "[]"]
    by simp
  have c: "fst (snd (Start example_Scaler [Tick queue_down, Tick provider_down] [])) =
       [ Skipped (QueueSourceError ''unreachable''),
         Completed [ProviderError ''quota'', ProviderError ''quota''] ]"
    by (simp add: example_Config case_prod_unfold tick_queue_down tick_provider_down)
  have d: "GetPendingCount queue_down = Inl (QueueSourceError ''unreachable'')"
    using scaler_keeps_ticking [of _ _ "[]" pool_2_4 queue_down] tick_queue_down by blast
  have e: "storage_failure storage_down = Some (RegistryError ''disk'')"
    using scaler_keeps_ticking [of _ _ "[]" pool_2_4 storage_down] tick_storage_down by blast
  have f: "main_wait [None] = None"
    using scaler_keeps_ticking [of _ _ "[]" _ _ "[None]"] by simp
  from a b c d e f tick_queue_down tick_storage_down show ?thesis by simp
qed

end
